theory Spec2Isabelle
  imports Main "HOL-Library.Word"
begin

unbundle bit_operations_syntax

section \<open>Bytes, slices and little-endian fields\<close>

text \<open>
  Go's \<open>byte\<close>, \<open>uint16\<close> and \<open>uint32\<close> are words of 8, 16 and 32 bits; the signed
  types \<open>int8\<close>, \<open>int16\<close> and \<open>int32\<close> are the same words read by \<open>sint\<close>, so the
  conversions \<open>uint16(v)\<close> and \<open>int16(u)\<close> between them keep the bit pattern. A Go
  \<open>string\<close> is a sequence of bytes and \<open>len\<close> counts bytes, as \<open>length\<close> does on a HOL
  \<open>string\<close>. A \<open>[]byte\<close> is a list of bytes.
\<close>

type_synonym byte = "8 word"
type_synonym uint16 = "16 word"
type_synonym uint32 = "32 word"

text \<open>\<open>[]byte(s)\<close>\<close>

definition bytes_of :: "string \<Rightarrow> byte list" where
  "bytes_of s = map of_char s"

text \<open>\<open>string(b)\<close>\<close>

definition string_of :: "byte list \<Rightarrow> string" where
  "string_of b = map (\<lambda>x. char_of (unat x)) b"

text \<open>\<open>make([]byte, n)\<close>: \<open>n\<close> zero bytes.\<close>

definition make_bytes :: "nat \<Rightarrow> byte list" where
  "make_bytes n = replicate n 0"

text \<open>\<open>xs[lo:hi]\<close>; every use in the source is guarded by a length check.\<close>

definition slice :: "nat \<Rightarrow> nat \<Rightarrow> 'a list \<Rightarrow> 'a list" where
  "slice lo hi xs = take (hi - lo) (drop lo xs)"

text \<open>
  \<open>copy(dst, src)\<close> overwrites the first \<open>min(len(dst), len(src))\<close> bytes of \<open>dst\<close>;
  \<open>copy_at off buf src\<close> is \<open>copy(buf[off:], src)\<close>, giving the buffer afterwards.
\<close>

definition copy_into :: "byte list \<Rightarrow> byte list \<Rightarrow> byte list" where
  "copy_into dst src = take (length dst) src @ drop (length src) dst"

definition copy_at :: "nat \<Rightarrow> byte list \<Rightarrow> byte list \<Rightarrow> byte list" where
  "copy_at off buf src = take off buf @ copy_into (drop off buf) src"

text \<open>
  \<open>binary.LittleEndian.PutUint16(buf[off:off+2], v)\<close> and \<open>PutUint32(buf[off:off+4], v)\<close>:
  the low byte first.
\<close>

definition PutUint16 :: "nat \<Rightarrow> byte list \<Rightarrow> uint16 \<Rightarrow> byte list" where
  "PutUint16 off buf v = buf[off := ucast v, off + 1 := ucast (drop_bit 8 v)]"

definition PutUint32 :: "nat \<Rightarrow> byte list \<Rightarrow> uint32 \<Rightarrow> byte list" where
  "PutUint32 off buf v =
     buf[off := ucast v, off + 1 := ucast (drop_bit 8 v),
         off + 2 := ucast (drop_bit 16 v), off + 3 := ucast (drop_bit 24 v)]"

text \<open>
  \<open>binary.LittleEndian.Uint16(b)\<close> and \<open>Uint32(b)\<close>; the source calls them on slices of
  at least 2 and 4 bytes only.
\<close>

definition Uint16 :: "byte list \<Rightarrow> uint16" where
  "Uint16 b = ucast (b ! 0) OR push_bit 8 (ucast (b ! 1))"

definition Uint32 :: "byte list \<Rightarrow> uint32" where
  "Uint32 b = ucast (b ! 0) OR push_bit 8 (ucast (b ! 1))
              OR push_bit 16 (ucast (b ! 2)) OR push_bit 24 (ucast (b ! 3))"

section \<open>Errors and values\<close>

text \<open>
  A Go \<open>error\<close> is \<open>error option\<close> here (\<open>None\<close> for \<open>nil\<close>). \<open>errors_New m\<close> is
  \<open>errors.New(m)\<close>; \<open>CIPError code msg\<close> is the struct \<open>CIPError{Code, ExtendedMsg}\<close>;
  \<open>fmt_Errorf f args\<close> is \<open>fmt.Errorf(f, args...)\<close> with integer arguments;
  \<open>fmt_Errorf_w f e\<close> is \<open>fmt.Errorf(f, e)\<close> wrapping \<open>e\<close> with \<open>%w\<close>;
  \<open>conn_error m\<close> is an error reported by the network connection;
  \<open>panic m\<close> is a run-time panic.
\<close>

datatype error =
    errors_New string
  | CIPError byte string
  | fmt_Errorf string "nat list"
  | fmt_Errorf_w string error
  | conn_error string
  | panic string

text \<open>
  \<open>float32\<close> is given by its IEEE-754 bit pattern: \<open>math.Float32frombits\<close> and
  \<open>math.Float32bits\<close> reinterpret the 32 bits and are inverse to each other.
\<close>

datatype float32 = Float32frombits (Float32bits: uint32)

text \<open>The dynamically typed result (\<open>interface{}\<close>) of a typed read.\<close>

datatype go_value =
    Bool_val bool
  | Int8_val "8 word"
  | Int16_val "16 word"
  | Int32_val "32 word"
  | Float32_val float32
  | Uint32_val uint32
  | String_val string
  | Bytes_val "byte list"

section \<open>CIP constants\<close>

definition CIPServiceReadTag :: byte where "CIPServiceReadTag = 0x4C"
definition CIPServiceWriteTag :: byte where "CIPServiceWriteTag = 0x4D"
definition CIPPathTypeSymbolic :: byte where "CIPPathTypeSymbolic = 0x91"
definition CIPDataTypeBOOL :: byte where "CIPDataTypeBOOL = 0xC1"
definition CIPDataTypeSINT :: byte where "CIPDataTypeSINT = 0xC2"
definition CIPDataTypeINT :: byte where "CIPDataTypeINT = 0xC3"
definition CIPDataTypeDINT :: byte where "CIPDataTypeDINT = 0xC4"
definition CIPDataTypeREAL :: byte where "CIPDataTypeREAL = 0xCA"
definition CIPDataTypeDWORD :: byte where "CIPDataTypeDWORD = 0xD3"
definition CIPDataTypeSTRING :: byte where "CIPDataTypeSTRING = 0xD0"

section \<open>CIP status codes\<close>

text \<open>The \<open>switch\<close> of \<open>CIPStatusToError\<close>, case by case, with its \<open>default\<close> last.\<close>

definition status_msg :: "byte \<Rightarrow> string" where
  "status_msg status =
    (if status = 0x01 then ''Connection failure''
     else if status = 0x02 then ''Resource unavailable''
     else if status = 0x03 then ''Invalid parameter value''
     else if status = 0x04 then ''Path segment error''
     else if status = 0x05 then ''Path destination unknown''
     else if status = 0x06 then ''Partial transfer''
     else if status = 0x07 then ''Connection lost''
     else if status = 0x08 then ''Service not supported''
     else if status = 0x09 then ''Invalid attribute value''
     else if status = 0x0A then ''Attribute list error''
     else if status = 0x0B then ''Already in requested mode/state''
     else if status = 0x0C then ''Object state conflict''
     else if status = 0x0D then ''Object already exists''
     else if status = 0x0E then ''Attribute not settable''
     else if status = 0x0F then ''Privilege violation''
     else if status = 0x10 then ''Device state conflict''
     else if status = 0x11 then ''Reply data too large''
     else if status = 0x12 then ''Fragmentation of a primitive value''
     else if status = 0x13 then ''Not enough data''
     else if status = 0x14 then ''Attribute not supported''
     else if status = 0x15 then ''Too much data''
     else if status = 0x16 then ''Object does not exist''
     else if status = 0x17 then ''Service fragmentation sequence not in progress''
     else if status = 0x18 then ''No stored attribute data''
     else if status = 0x19 then ''Store operation failure''
     else if status = 0x1A then ''Routing failure, request packet too large''
     else if status = 0x1B then ''Routing failure, response packet too large''
     else if status = 0x1C then ''Missing attribute list entry data''
     else if status = 0x1D then ''Invalid attribute value list''
     else if status = 0x1E then ''Embedded service error''
     else if status = 0x1F then ''Vendor specific error''
     else if status = 0x20 then ''Invalid parameter''
     else if status = 0x21 then ''Write-once value or medium already written''
     else if status = 0x22 then ''Invalid reply received''
     else if status = 0x25 then ''Key failure in path''
     else if status = 0x26 then ''Path size invalid''
     else if status = 0x27 then ''Unexpected attribute in list''
     else if status = 0x28 then ''Invalid member ID''
     else if status = 0x29 then ''Member not settable''
     else if status = 0xFF then ''General Error''
     else ''Unknown error'')"

definition CIPStatusToError :: "byte \<Rightarrow> error option" where
  "CIPStatusToError status =
    (if status = 0 then None else Some (CIPError status (status_msg status)))"

section \<open>Building requests\<close>

definition BuildCIPPath :: "string \<Rightarrow> byte list" where
  "BuildCIPPath tagName =
    (if tagName = [] then []
     else
       let len = length tagName;
           padded = (len mod 2 \<noteq> 0);
           path = make_bytes (2 + len);
           path = path[0 := CIPPathTypeSymbolic];
           path = path[1 := of_nat len];
           path = copy_at 2 path (bytes_of tagName)
       in if padded then path @ [0] else path)"

definition BuildCIPReadRequest :: "string \<Rightarrow> uint16 \<Rightarrow> byte list" where
  "BuildCIPReadRequest tagName elements =
    (let path = BuildCIPPath tagName;
         request = make_bytes (4 + length path);
         request = request[0 := CIPServiceReadTag];
         request = request[1 := of_nat ((length path + 1) div 2)];
         request = copy_at 2 request path
     in PutUint16 (length request - 2) request elements)"

definition BuildCIPWriteRequest :: "string \<Rightarrow> byte \<Rightarrow> byte list \<Rightarrow> byte list" where
  "BuildCIPWriteRequest tagName dataType data =
    (let path = BuildCIPPath tagName;
         request = make_bytes (4 + length path + length data);
         request = request[0 := CIPServiceWriteTag];
         request = request[1 := of_nat ((length path + 1) div 2)];
         request = copy_at 2 request path;
         request = request[2 + length path := dataType];
         request = request[3 + length path := 1]
     in copy_at (4 + length path) request data)"

section \<open>Parsing responses\<close>

definition ParseCIPResponse :: "byte list \<Rightarrow> error + byte list" where
  "ParseCIPResponse response =
    (if length response < 2 then Inl (errors_New ''response too short'')
     else if (response ! 0) AND 0x80 = 0 then Inl (errors_New ''not a response'')
     else case CIPStatusToError (response ! 1) of
            Some err \<Rightarrow> Inl err
          | None \<Rightarrow> if length response \<le> 2 then Inr [] else Inr (drop 2 response))"

text \<open>
  \<open>bits.Len\<close>: the number of bits needed to write \<open>n\<close>, searched over at most \<open>k\<close>
  bits.
\<close>

primrec Len :: "nat \<Rightarrow> nat \<Rightarrow> nat" where
  "Len 0 n = 0"
| "Len (Suc k) n = (if n = 0 then 0 else Suc (Len k (n div 2)))"

text \<open>
  Go's numeric conversion \<open>float32(x)\<close> of an unsigned 32-bit integer: the nearest
  single-precision number, ties to the even mantissa. With \<open>e\<close> the position of the
  highest set bit, the 24-bit mantissa is \<open>x\<close> shifted to that width and rounded, and
  the result has the biased exponent \<open>e + 127\<close>; a mantissa rounded up to \<open>2 ^ 24\<close>
  carries into the exponent.
\<close>

definition float32_of_uint32 :: "uint32 \<Rightarrow> float32" where
  "float32_of_uint32 x =
    (let n = unat x in
     if n = 0 then Float32frombits 0
     else
       let e = Len 32 n - 1;
           m = (if e \<le> 23 then n * 2 ^ (23 - e)
                else
                  let q = n div 2 ^ (e - 23);
                      r = n mod 2 ^ (e - 23);
                      half = 2 ^ (e - 24)
                  in if half < r \<or> (r = half \<and> odd q) then q + 1 else q)
       in Float32frombits (of_nat ((e + 127) * 2 ^ 23 + (m - 2 ^ 23))))"

text \<open>\<open>float32FromUint32\<close> calls \<open>float32FromUint32Go\<close>, which is \<open>float32(bits)\<close>.\<close>

definition float32FromUint32Go :: "uint32 \<Rightarrow> float32" where
  "float32FromUint32Go bits = float32_of_uint32 bits"

definition float32FromUint32 :: "uint32 \<Rightarrow> float32" where
  "float32FromUint32 bits = float32FromUint32Go bits"

text \<open>
  In the \<open>STRING\<close> case \<open>4+length\<close> is \<open>uint16\<close> arithmetic and wraps; a wrapped upper
  bound below 4 makes the slice expression \<open>data[4 : 4+length]\<close> panic.
\<close>

definition ParseCIPReadResponse :: "byte list \<Rightarrow> byte \<Rightarrow> error + go_value" where
  "ParseCIPReadResponse response dataType =
    (case ParseCIPResponse response of
       Inl err \<Rightarrow> Inl err
     | Inr data \<Rightarrow>
        if length data < 2 then Inl (errors_New ''response data too short'')
        else if data ! 0 \<noteq> dataType then
          Inl (fmt_Errorf ''data type mismatch: expected %#x, got %#x''
                 [unat dataType, unat (data ! 0)])
        else if dataType = CIPDataTypeBOOL then
          (if length data < 3 then Inl (errors_New ''not enough data for BOOL'')
           else Inr (Bool_val (data ! 2 \<noteq> 0)))
        else if dataType = CIPDataTypeSINT then
          (if length data < 3 then Inl (errors_New ''not enough data for SINT'')
           else Inr (Int8_val (data ! 2)))
        else if dataType = CIPDataTypeINT then
          (if length data < 4 then Inl (errors_New ''not enough data for INT'')
           else Inr (Int16_val (Uint16 (slice 2 4 data))))
        else if dataType = CIPDataTypeDINT then
          (if length data < 6 then Inl (errors_New ''not enough data for DINT'')
           else Inr (Int32_val (Uint32 (slice 2 6 data))))
        else if dataType = CIPDataTypeREAL then
          (if length data < 6 then Inl (errors_New ''not enough data for REAL'')
           else Inr (Float32_val (float32FromUint32 (Uint32 (slice 2 6 data)))))
        else if dataType = CIPDataTypeDWORD then
          (if length data < 6 then Inl (errors_New ''not enough data for DWORD'')
           else Inr (Uint32_val (Uint32 (slice 2 6 data))))
        else if dataType = CIPDataTypeSTRING then
          (if length data < 4 then Inl (errors_New ''not enough data for STRING header'')
           else
             let len = Uint16 (slice 2 4 data) in
             if length data < unat (4 + len) then Inl (errors_New ''string data truncated'')
             else if unat (4 + len) < 4 then Inl (panic ''slice bounds out of range'')
             else Inr (String_val (string_of (slice 4 (unat (4 + len)) data))))
        else Inr (Bytes_val (drop 2 data)))"

section \<open>Scalar codec\<close>

definition EncodeBool :: "bool \<Rightarrow> byte list" where
  "EncodeBool v = (if v then [1] else [0])"

definition EncodeInt16 :: "16 word \<Rightarrow> byte list" where
  "EncodeInt16 v = PutUint16 0 (make_bytes 2) v"

definition EncodeInt32 :: "32 word \<Rightarrow> byte list" where
  "EncodeInt32 v = PutUint32 0 (make_bytes 4) v"

definition EncodeFloat32 :: "float32 \<Rightarrow> byte list" where
  "EncodeFloat32 v = PutUint32 0 (make_bytes 4) (Float32bits v)"

definition DecodeBool :: "byte list \<Rightarrow> error + bool" where
  "DecodeBool data =
    (if length data < 1 then Inl (errors_New ''not enough data to decode bool'')
     else Inr (data ! 0 \<noteq> 0))"

definition DecodeInt16 :: "byte list \<Rightarrow> error + 16 word" where
  "DecodeInt16 data =
    (if length data < 2 then Inl (errors_New ''not enough data to decode int16'')
     else Inr (Uint16 data))"

definition DecodeInt32 :: "byte list \<Rightarrow> error + 32 word" where
  "DecodeInt32 data =
    (if length data < 4 then Inl (errors_New ''not enough data to decode int32'')
     else Inr (Uint32 data))"

definition DecodeFloat32 :: "byte list \<Rightarrow> error + float32" where
  "DecodeFloat32 data =
    (if length data < 4 then Inl (errors_New ''not enough data to decode float32'')
     else Inr (Float32frombits (Uint32 data)))"

section \<open>EtherNet/IP session\<close>

definition EIPCommandUnregister :: uint16 where "EIPCommandUnregister = 0x0066"
definition EIPCommandSendRRData :: uint16 where "EIPCommandSendRRData = 0x006F"
definition EIPCommandSendUnitData :: uint16 where "EIPCommandSendUnitData = 0x0070"

record EIPHeader =
  Command :: uint16
  Length :: uint16
  SessionHandle :: uint32
  Status :: uint32
  SenderContext :: "byte list"
  Options :: uint32

text \<open>The zero value of the struct; \<open>SenderContext\<close> is \<open>[8]byte\<close>.\<close>

definition EIPHeader_zero :: EIPHeader where
  "EIPHeader_zero =
     \<lparr>Command = 0, Length = 0, SessionHandle = 0, Status = 0,
      SenderContext = make_bytes 8, Options = 0\<rparr>"

text \<open>\<open>copy(buf[lo:hi], src)\<close>\<close>

definition copy_slice :: "nat \<Rightarrow> nat \<Rightarrow> byte list \<Rightarrow> byte list \<Rightarrow> byte list" where
  "copy_slice lo hi buf src = take lo buf @ copy_into (slice lo hi buf) src @ drop hi buf"

text \<open>
  The six statements with which every command writes its header into the first 24
  bytes of the buffer.
\<close>

definition put_header :: "byte list \<Rightarrow> EIPHeader \<Rightarrow> byte list" where
  "put_header buf header =
    (let buf = PutUint16 0 buf (Command header);
         buf = PutUint16 2 buf (Length header);
         buf = PutUint32 4 buf (SessionHandle header);
         buf = PutUint32 8 buf (Status header);
         buf = copy_slice 12 20 buf (SenderContext header)
     in PutUint32 20 buf (Options header))"

text \<open>
  The connection (\<open>net.Conn\<close>) is the environment of the client. Its state: the bytes
  the peer has sent and the client has not read yet, the bytes the client has written,
  whether it is closed, and what the environment answers to setting a deadline and to
  a write. A read of \<open>n\<close> bytes (\<open>io.ReadFull\<close>) succeeds when the peer has sent that
  many. Every operation on a closed connection fails, as on the TCP connection that
  \<open>NewClient\<close> dials.
\<close>

record Conn =
  readData :: "byte list"
  writeData :: "byte list"
  closed :: bool
  setWriteDeadlineErr :: "error option"
  setReadDeadlineErr :: "error option"
  writeErr :: "error option"

definition ErrClosed :: error where
  "ErrClosed = conn_error ''use of closed network connection''"

definition conn_SetWriteDeadline :: "Conn \<Rightarrow> error option" where
  "conn_SetWriteDeadline k = (if closed k then Some ErrClosed else setWriteDeadlineErr k)"

definition conn_SetReadDeadline :: "Conn \<Rightarrow> error option" where
  "conn_SetReadDeadline k = (if closed k then Some ErrClosed else setReadDeadlineErr k)"

definition conn_Write :: "Conn \<Rightarrow> byte list \<Rightarrow> error option \<times> Conn" where
  "conn_Write k b =
    (if closed k then (Some ErrClosed, k)
     else case writeErr k of
            Some err \<Rightarrow> (Some err, k)
          | None \<Rightarrow> (None, k\<lparr>writeData := writeData k @ b\<rparr>))"

definition io_ReadFull :: "Conn \<Rightarrow> nat \<Rightarrow> (error + byte list) \<times> Conn" where
  "io_ReadFull k n =
    (if closed k then (Inl ErrClosed, k)
     else if n \<le> length (readData k)
       then (Inr (take n (readData k)), k\<lparr>readData := drop n (readData k)\<rparr>)
     else if readData k = [] then (Inl (conn_error ''EOF''), k)
     else (Inl (conn_error ''unexpected EOF''), k\<lparr>readData := []\<rparr>))"

definition conn_Close :: "Conn \<Rightarrow> error option \<times> Conn" where
  "conn_Close k = (if closed k then (Some ErrClosed, k) else (None, k\<lparr>closed := True\<rparr>))"

text \<open>
  The client. The mutex \<open>mu\<close> has no counterpart: calls are modelled one at a time.
  \<open>timeout\<close> is a duration in nanoseconds; the clock is not modelled.
\<close>

record Client =
  conn :: Conn
  sessionHandle :: uint32
  timeout :: int


definition unregisterSession :: "Client \<Rightarrow> error option \<times> Client" where
  "unregisterSession c =
    (if sessionHandle c = 0 then (None, c)
     else
       let header = EIPHeader_zero\<lparr>Command := EIPCommandUnregister, Length := 0,
                                   SessionHandle := sessionHandle c\<rparr>;
           data = make_bytes 24;
           data = put_header data header
       in case conn_SetWriteDeadline (conn c) of
            Some err \<Rightarrow> (Some (fmt_Errorf_w ''failed to set write deadline: %w'' err), c)
          | None \<Rightarrow>
         (case conn_Write (conn c) data of
            (Some err, k) \<Rightarrow>
              (Some (fmt_Errorf_w ''failed to send unregister session request: %w'' err),
               c\<lparr>conn := k\<rparr>)
          | (None, k) \<Rightarrow> (None, c\<lparr>conn := k, sessionHandle := 0\<rparr>)))"

definition Close :: "Client \<Rightarrow> error option \<times> Client" where
  "Close c =
    (case (if sessionHandle c \<noteq> 0 then unregisterSession c else (None, c)) of
       (Some err, c') \<Rightarrow> (Some err, c')
     | (None, c') \<Rightarrow>
         (case conn_Close (conn c') of (r, k) \<Rightarrow> (r, c'\<lparr>conn := k\<rparr>)))"

text \<open>
  The request frame of \<open>SendRRData\<close> and \<open>SendUnitData\<close>: header, interface handle,
  timeout and the data; \<open>uint16(totalLen)\<close> truncates.
\<close>

definition send_frame :: "uint16 \<Rightarrow> uint32 \<Rightarrow> uint32 \<Rightarrow> uint16 \<Rightarrow> byte list \<Rightarrow> byte list" where
  "send_frame command handle interfaceHandle tmo data =
    (let dataLen = length data;
         totalLen = 6 + dataLen;
         header = EIPHeader_zero\<lparr>Command := command, Length := of_nat totalLen,
                                   SessionHandle := handle\<rparr>;
         buffer = make_bytes (24 + totalLen);
         buffer = put_header buffer header;
         buffer = PutUint32 24 buffer interfaceHandle;
         buffer = PutUint16 28 buffer tmo
     in copy_at 30 buffer data)"

definition SendRRData ::
  "Client \<Rightarrow> uint32 \<Rightarrow> uint16 \<Rightarrow> byte list \<Rightarrow> (error + byte list) \<times> Client" where
  "SendRRData c interfaceHandle tmo data =
    (if sessionHandle c = 0 then (Inl (errors_New ''session not registered''), c)
     else
       let buffer = send_frame EIPCommandSendRRData (sessionHandle c) interfaceHandle tmo data
       in case conn_SetWriteDeadline (conn c) of
            Some err \<Rightarrow> (Inl (fmt_Errorf_w ''failed to set write deadline: %w'' err), c)
          | None \<Rightarrow>
         (case conn_Write (conn c) buffer of
            (Some err, k) \<Rightarrow>
              (Inl (fmt_Errorf_w ''failed to send request: %w'' err), c\<lparr>conn := k\<rparr>)
          | (None, k) \<Rightarrow>
         (case conn_SetReadDeadline k of
            Some err \<Rightarrow>
              (Inl (fmt_Errorf_w ''failed to set read deadline: %w'' err), c\<lparr>conn := k\<rparr>)
          | None \<Rightarrow>
         (case io_ReadFull k 24 of
            (Inl err, k1) \<Rightarrow>
              (Inl (fmt_Errorf_w ''failed to read response header: %w'' err), c\<lparr>conn := k1\<rparr>)
          | (Inr respHeader, k1) \<Rightarrow>
              let respCmd = Uint16 (slice 0 2 respHeader);
                  respLen = Uint16 (slice 2 4 respHeader);
                  respStatus = Uint32 (slice 8 12 respHeader)
              in if respCmd \<noteq> EIPCommandSendRRData then
                   (Inl (fmt_Errorf ''unexpected response command: %d'' [unat respCmd]),
                    c\<lparr>conn := k1\<rparr>)
                 else if respStatus \<noteq> 0 then
                   (Inl (fmt_Errorf ''request failed with status: %d'' [unat respStatus]),
                    c\<lparr>conn := k1\<rparr>)
                 else
                  (case io_ReadFull k1 6 of
                     (Inl err, k2) \<Rightarrow>
                       (Inl (fmt_Errorf_w ''failed to read interface handle and timeout: %w'' err),
                        c\<lparr>conn := k2\<rparr>)
                   | (Inr respData, k2) \<Rightarrow>
                       if int (unat respLen) - 6 \<le> 0 then (Inr [], c\<lparr>conn := k2\<rparr>)
                       else
                        (case io_ReadFull k2 (unat respLen - 6) of
                           (Inl err, k3) \<Rightarrow>
                             (Inl (fmt_Errorf_w ''failed to read response data: %w'' err),
                              c\<lparr>conn := k3\<rparr>)
                         | (Inr respPayload, k3) \<Rightarrow> (Inr respPayload, c\<lparr>conn := k3\<rparr>)))))))"

definition SendUnitData ::
  "Client \<Rightarrow> uint32 \<Rightarrow> uint16 \<Rightarrow> byte list \<Rightarrow> error option \<times> Client" where
  "SendUnitData c interfaceHandle tmo data =
    (if sessionHandle c = 0 then (Some (errors_New ''session not registered''), c)
     else
       let buffer = send_frame EIPCommandSendUnitData (sessionHandle c) interfaceHandle tmo data
       in case conn_SetWriteDeadline (conn c) of
            Some err \<Rightarrow> (Some (fmt_Errorf_w ''failed to set write deadline: %w'' err), c)
          | None \<Rightarrow>
         (case conn_Write (conn c) buffer of
            (Some err, k) \<Rightarrow>
              (Some (fmt_Errorf_w ''failed to send request: %w'' err), c\<lparr>conn := k\<rparr>)
          | (None, k) \<Rightarrow> (None, c\<lparr>conn := k\<rparr>)))"

section \<open>Example sessions\<close>

text \<open>
  \<open>dialled rd we\<close> is a connection just dialled: open, nothing written yet, the peer
  having sent \<open>rd\<close>, no deadline failing and writes answered by \<open>we\<close>.
  \<open>client_of k h\<close> is a client on the connection \<open>k\<close> with session handle \<open>h\<close> and the
  default timeout of ten seconds.
\<close>

abbreviation dialled :: "byte list \<Rightarrow> error option \<Rightarrow> Conn" where
  "dialled rd we \<equiv>
     \<lparr>readData = rd, writeData = [], closed = False, setWriteDeadlineErr = None,
      setReadDeadlineErr = None, writeErr = we\<rparr>"

abbreviation client_of :: "Conn \<Rightarrow> uint32 \<Rightarrow> Client" where
  "client_of k h \<equiv> \<lparr>conn = k, sessionHandle = h, timeout = 10000000000\<rparr>"

section \<open>Helper lemmas: buffers\<close>

lemma copy_at_header:
  "copy_at 2 ((make_bytes (2 + n))[0 := a, 1 := b]) xs =
     a # b # take n xs @ replicate (n - length xs) 0"
  by (simp add: copy_at_def copy_into_def make_bytes_def numeral_2_eq_2)

lemma update_tail: "(xs @ ys)[length xs + k := v] = xs @ ys[k := v]"
  by (simp add: list_update_append)

lemma copy_at_tail: "length z = length d \<Longrightarrow> copy_at (length ws) (ws @ z) d = ws @ d"
  by (simp add: copy_at_def copy_into_def)

lemma Uint16_Cons: "Uint16 (b0 # b1 # bs) = ucast b0 OR push_bit 8 (ucast b1)"
  by (simp add: Uint16_def)

lemma Uint32_Cons:
  "Uint32 (b0 # b1 # b2 # b3 # bs) =
     ucast b0 OR push_bit 8 (ucast b1) OR push_bit 16 (ucast b2) OR push_bit 24 (ucast b3)"
  by (simp add: Uint32_def)

lemma PutUint16_fresh: "PutUint16 0 (make_bytes 2) v = [ucast v, ucast (drop_bit 8 v)]"
  by (simp add: PutUint16_def make_bytes_def numeral_2_eq_2)

lemma PutUint32_fresh:
  "PutUint32 0 (make_bytes 4) v =
     [ucast v, ucast (drop_bit 8 v), ucast (drop_bit 16 v), ucast (drop_bit 24 v)]"
  by (simp add: PutUint32_def make_bytes_def eval_nat_numeral)

text \<open>Reading back the bytes of a word gives the word.\<close>

lemma bit_byte_of16:
  "bit (ucast (ucast (drop_bit k (v::16 word)) :: byte) :: 16 word) m = (m < 8 \<and> bit v (k + m))"
  by (auto simp add: bit_simps)

lemma bit_byte_of32:
  "bit (ucast (ucast (drop_bit k (v::32 word)) :: byte) :: 32 word) m = (m < 8 \<and> bit v (k + m))"
  by (auto simp add: bit_simps)

lemma le16_inverse:
  "(ucast (ucast (v::16 word) :: byte) :: 16 word)
     OR push_bit 8 (ucast (ucast (drop_bit 8 v) :: byte)) = v"
proof (rule bit_word_eqI)
  fix n assume n: "n < LENGTH(16)"
  have b0: "bit (ucast (ucast v :: byte) :: 16 word) n = (n < 8 \<and> bit v n)"
    using bit_byte_of16 [of 0 v n] by simp
  have b: "bit (push_bit k (ucast (ucast (drop_bit k v) :: byte) :: 16 word)) n
             = (k \<le> n \<and> n < k + 8 \<and> bit v n)" for k
    using n by (auto simp add: bit_push_bit_iff bit_byte_of16)
  show "bit (ucast (ucast v :: byte)
          OR push_bit 8 (ucast (ucast (drop_bit 8 v) :: byte)) :: 16 word) n = bit v n"
    unfolding bit_or_iff b0 b using n by auto
qed

lemma le32_inverse:
  "(ucast (ucast (v::32 word) :: byte) :: 32 word)
     OR push_bit 8 (ucast (ucast (drop_bit 8 v) :: byte))
     OR push_bit 16 (ucast (ucast (drop_bit 16 v) :: byte))
     OR push_bit 24 (ucast (ucast (drop_bit 24 v) :: byte)) = v"
proof (rule bit_word_eqI)
  fix n assume n: "n < LENGTH(32)"
  have b0: "bit (ucast (ucast v :: byte) :: 32 word) n = (n < 8 \<and> bit v n)"
    using bit_byte_of32 [of 0 v n] by simp
  have b: "bit (push_bit k (ucast (ucast (drop_bit k v) :: byte) :: 32 word)) n
             = (k \<le> n \<and> n < k + 8 \<and> bit v n)" for k
    using n by (auto simp add: bit_push_bit_iff bit_byte_of32)
  show "bit (ucast (ucast v :: byte)
          OR push_bit 8 (ucast (ucast (drop_bit 8 v) :: byte))
          OR push_bit 16 (ucast (ucast (drop_bit 16 v) :: byte))
          OR push_bit 24 (ucast (ucast (drop_bit 24 v) :: byte)) :: 32 word) n = bit v n"
    unfolding bit_or_iff b0 b using n by auto
qed

section \<open>Helper lemmas: requests in closed form\<close>

lemma BuildCIPPath_closed:
  assumes "s \<noteq> []"
  shows "BuildCIPPath s =
           0x91 # of_nat (length s) # bytes_of s @ (if odd (length s) then [0] else [])"
proof -
  have "copy_at 2 ((make_bytes (2 + length s))[0 := 0x91, 1 := of_nat (length s)]) (bytes_of s)
          = 0x91 # of_nat (length s) # bytes_of s"
    unfolding copy_at_header by (simp add: bytes_of_def)
  with assms show ?thesis
    by (simp add: BuildCIPPath_def Let_def CIPPathTypeSymbolic_def odd_iff_mod_2_eq_one)
qed

lemma slice_path: "slice 2 (2 + length s) (a # b # bytes_of s @ t) = bytes_of s"
  by (simp add: slice_def bytes_of_def)

lemma BuildCIPReadRequest_closed:
  "BuildCIPReadRequest s e =
     0x4C # of_nat ((length (BuildCIPPath s) + 1) div 2) # BuildCIPPath s
       @ [ucast e, ucast (drop_bit 8 e)]"
proof -
  define p where "p = BuildCIPPath s"
  have 1: "copy_at 2 ((make_bytes (4 + length p))[0 := a, 1 := b]) p = (a # b # p) @ [0, 0]"
    for a b
  proof -
    have e: "4 + length p = 2 + (2 + length p)" by simp
    show ?thesis unfolding e copy_at_header by (simp add: numeral_2_eq_2)
  qed
  have 2: "length (copy_at 2 ((make_bytes (4 + length p))[0 := a, 1 := b]) p) - 2
             = length (a # b # p)" for a b
    unfolding 1 by simp
  have 3: "((a # b # p) @ [0, 0])[length (a # b # p) := x, length (a # b # p) + 1 := y]
             = (a # b # p) @ [x, y]" for a b x y
    using update_tail [of "a # b # p" "[0,0]" 0 x] update_tail [of "a # b # p" "[x,0]" 1 y]
    by simp
  show ?thesis
    unfolding BuildCIPReadRequest_def Let_def p_def [symmetric] PutUint16_def 2
    unfolding 1 3 by (simp add: CIPServiceReadTag_def)
qed

lemma BuildCIPWriteRequest_closed:
  "BuildCIPWriteRequest s t d =
     0x4D # of_nat ((length (BuildCIPPath s) + 1) div 2) # BuildCIPPath s @ t # 1 # d"
proof -
  define p where "p = BuildCIPPath s"
  define z :: "byte list" where "z = replicate (length d) 0"
  have lz: "length z = length d" by (simp add: z_def)
  have 1: "copy_at 2 ((make_bytes (4 + length p + length d))[0 := a, 1 := b]) p
             = (a # b # p) @ 0 # 0 # z" for a b
  proof -
    have e: "4 + length p + length d = 2 + (length p + (2 + length d))" by simp
    show ?thesis unfolding e copy_at_header by (simp add: numeral_2_eq_2 z_def)
  qed
  have 2: "((a # b # p) @ 0 # 0 # z)[2 + length p := x, 3 + length p := y]
             = (a # b # p) @ x # y # z" for a b x y
  proof -
    have i2: "2 + length p = length (a # b # p) + 0"
      and i3: "3 + length p = length (a # b # p) + 1"
      by simp_all
    show ?thesis unfolding i2 i3 update_tail by simp
  qed
  have 3: "copy_at (4 + length p) ((a # b # p) @ x # y # z) d = (a # b # p) @ x # y # d"
    for a b x y
  proof -
    have l: "4 + length p = length (a # b # p @ [x, y])" by simp
    have "copy_at (length (a # b # p @ [x, y])) ((a # b # p @ [x, y]) @ z) d
            = (a # b # p @ [x, y]) @ d"
      by (rule copy_at_tail) (rule lz)
    then show ?thesis unfolding l by simp
  qed
  show ?thesis
    unfolding BuildCIPWriteRequest_def Let_def p_def [symmetric]
    unfolding 1 2 3 by (simp add: CIPServiceWriteTag_def)
qed

section \<open>Helper lemmas: numeric conversion to \<open>float32\<close>\<close>

lemma Len_numeral:
  "Len (numeral k) n = (if n = 0 then 0 else Suc (Len (pred_numeral k) (n div 2)))"
  by (simp add: numeral_eq_Suc)

text \<open>
  The conversion at some integers: \<open>float32(1) = 1.0\<close>; \<open>2 ^ 24 + 1\<close> is a tie and
  rounds down to the even mantissa, \<open>2 ^ 24 + 3\<close> rounds up; \<open>2 ^ 32 - 1\<close> rounds up to
  \<open>2 ^ 32\<close>; and the integer \<open>0x3F800000\<close> becomes about \<open>1.07e9\<close>, not \<open>1.0\<close>.
\<close>

lemma float32_of_uint32_samples:
  "float32_of_uint32 0 = Float32frombits 0"
  "float32_of_uint32 1 = Float32frombits 0x3F800000"
  "float32_of_uint32 16777217 = Float32frombits 0x4B800000"
  "float32_of_uint32 16777219 = Float32frombits 0x4B800002"
  "float32_of_uint32 0xFFFFFFFF = Float32frombits 0x4F800000"
  "float32_of_uint32 0x3F800000 = Float32frombits 0x4E7E0000"
  by (simp_all add: float32_of_uint32_def Let_def Len_numeral)

section \<open>Helper lemmas: session\<close>




lemma Close_send_fails:
  assumes "sessionHandle c \<noteq> 0" and "\<not> closed (conn c)"
    and "setWriteDeadlineErr (conn c) = None" and "writeErr (conn c) = Some e"
  shows "Close c = (Some (fmt_Errorf_w ''failed to send unregister session request: %w'' e), c)"
  using assms
  by (simp add: Close_def unregisterSession_def Let_def conn_SetWriteDeadline_def
      conn_Write_def)

lemma Close_unregistered:
  assumes "sessionHandle c = 0" and "\<not> closed (conn c)"
  shows "Close c = (None, c\<lparr>conn := (conn c)\<lparr>closed := True\<rparr>\<rparr>)"
  using assms by (simp add: Close_def conn_Close_def)

lemma Close_registered:
  assumes "sessionHandle c \<noteq> 0" and "\<not> closed (conn c)"
    and "setWriteDeadlineErr (conn c) = None" and "writeErr (conn c) = None"
  shows "fst (Close c) = None \<and> closed (conn (snd (Close c))) \<and>
         sessionHandle (snd (Close c)) = 0"
  using assms
  by (simp add: Close_def unregisterSession_def Let_def conn_SetWriteDeadline_def
      conn_Write_def conn_Close_def)

section \<open>The typed read of a REAL\<close>

text \<open>
  C1. A successful typed read of declared type REAL should return the single-precision
  value whose bit pattern is the little-endian integer of the four value bytes. The
  response \<open>CC 00 CA 01 00 00 80 3F\<close> carries the pattern \<open>0x3F800000\<close> of \<open>1.0\<close>;
  \<open>ParseCIPReadResponse\<close> converts the integer \<open>0x3F800000\<close> numerically and returns
  the number with pattern \<open>0x4E7E0000\<close> instead, which is not what
  \<open>math.Float32frombits\<close> (as used by \<open>DecodeFloat32\<close>) gives for these bytes.
\<close>

theorem ParseCIPReadResponse_REAL_numeric:
  "ParseCIPReadResponse [0xCC, 0x00, 0xCA, 0x01, 0x00, 0x00, 0x80, 0x3F] CIPDataTypeREAL
     = Inr (Float32_val (Float32frombits 0x4E7E0000)) \<and>
   DecodeFloat32 [0x00, 0x00, 0x80, 0x3F] = Inr (Float32frombits 0x3F800000) \<and>
   ParseCIPReadResponse [0xCC, 0x00, 0xCA, 0x01, 0x00, 0x00, 0x80, 0x3F] CIPDataTypeREAL
     \<noteq> Inr (Float32_val (Float32frombits (Uint32 [0x00, 0x00, 0x80, 0x3F])))"
proof -
  have u: "Uint32 [0x00, 0x00, 0x80, 0x3F] = 0x3F800000"
    by (simp add: Uint32_Cons)
  have p: "ParseCIPReadResponse [0xCC, 0x00, 0xCA, 0x01, 0x00, 0x00, 0x80, 0x3F] CIPDataTypeREAL
             = Inr (Float32_val (Float32frombits 0x4E7E0000))"
    by (simp add: ParseCIPReadResponse_def ParseCIPResponse_def CIPStatusToError_def
        CIPDataTypeREAL_def CIPDataTypeBOOL_def CIPDataTypeSINT_def CIPDataTypeINT_def
        CIPDataTypeDINT_def slice_def u float32FromUint32_def float32FromUint32Go_def
        float32_of_uint32_samples)
  have d: "DecodeFloat32 [0x00, 0x00, 0x80, 0x3F] = Inr (Float32frombits 0x3F800000)"
    by (simp add: DecodeFloat32_def u)
  show ?thesis unfolding p u using d by simp
qed

section \<open>The request bytes for the tag \<open>Counter\<close>\<close>

text \<open>
  C2. \<open>BuildCIPReadRequest("Counter", 1)\<close> returns the bytes
  \<open>4C 05 91 07 43 6F 75 6E 74 65 72 00 01 00\<close> and
  \<open>BuildCIPWriteRequest("Counter", 0xC4, e)\<close>, with \<open>e = 2A 00 00 00\<close> the encoding of
  the DINT 42, returns \<open>4D 05 91 07 43 6F 75 6E 74 65 72 00 C4 01 2A 00 00 00\<close>: the
  padded path has 10 bytes, so the path-size byte is 5 words in both.
\<close>

theorem BuildCIP_requests_Counter:
  "BuildCIPReadRequest ''Counter'' 1 =
     [0x4C, 0x05, 0x91, 0x07, 0x43, 0x6F, 0x75, 0x6E, 0x74, 0x65, 0x72, 0x00, 0x01, 0x00] \<and>
   EncodeInt32 42 = [0x2A, 0x00, 0x00, 0x00] \<and>
   BuildCIPWriteRequest ''Counter'' 0xC4 (EncodeInt32 42) =
     [0x4D, 0x05, 0x91, 0x07, 0x43, 0x6F, 0x75, 0x6E, 0x74, 0x65, 0x72, 0x00,
      0xC4, 0x01, 0x2A, 0x00, 0x00, 0x00]"
  by (simp add: BuildCIPReadRequest_closed BuildCIPWriteRequest_closed BuildCIPPath_closed
      bytes_of_def EncodeInt32_def PutUint32_fresh)

text \<open>
  C2, as first stated with a path size of 4 words, fails: the read request is not
  \<open>4C 04 91 07 43 6F 75 6E 74 65 72 00 01 00\<close>.
\<close>

theorem BuildCIPReadRequest_Counter_not_4_words:
  "BuildCIPReadRequest ''Counter'' 1 \<noteq>
     [0x4C, 0x04, 0x91, 0x07, 0x43, 0x6F, 0x75, 0x6E, 0x74, 0x65, 0x72, 0x00, 0x01, 0x00]"
  by (simp add: BuildCIPReadRequest_closed BuildCIPPath_closed bytes_of_def)

section \<open>Status codes\<close>

text \<open>
  C3. The status table should give every status from \<open>0x01\<close> to \<open>0x29\<close> its own
  description. The \<open>switch\<close> of \<open>CIPStatusToError\<close> has no case for \<open>0x23\<close> and \<open>0x24\<close>:
  both fall to the default and get the description of an unknown status, the same
  as \<open>0x2A\<close> outside the table. Status 0 is no error, \<open>0xFF\<close> has its own description
  and \<open>CC 01 00\<close> parses to the error of code \<open>0x01\<close>, "Connection failure".
\<close>

theorem CIPStatusToError_0x23_0x24_unknown:
  "CIPStatusToError 0x23 = Some (CIPError 0x23 ''Unknown error'') \<and>
   CIPStatusToError 0x24 = Some (CIPError 0x24 ''Unknown error'') \<and>
   CIPStatusToError 0x2A = Some (CIPError 0x2A ''Unknown error'') \<and>
   CIPStatusToError 0x22 = Some (CIPError 0x22 ''Invalid reply received'') \<and>
   CIPStatusToError 0x25 = Some (CIPError 0x25 ''Key failure in path'') \<and>
   CIPStatusToError 0xFF = Some (CIPError 0xFF ''General Error'') \<and>
   CIPStatusToError 0 = None \<and>
   ParseCIPResponse [0xCC, 0x01, 0x00] = Inl (CIPError 0x01 ''Connection failure'')"
  by (simp add: ParseCIPResponse_def CIPStatusToError_def status_msg_def)

section \<open>Closing the client\<close>

text \<open>
  C4. \<open>Close\<close> should close the socket and leave the handle zero from every state, also
  when the Unregister send fails. On a registered client (handle 1) whose connection
  refuses the write, \<open>Close\<close> returns the send error at once: the connection is still
  open and the handle is still 1 afterwards.
\<close>

theorem Close_keeps_socket_on_send_failure:
  "Close (client_of (dialled [] (Some (conn_error ''broken pipe''))) 1) =
     (Some (fmt_Errorf_w ''failed to send unregister session request: %w''
              (conn_error ''broken pipe'')),
      client_of (dialled [] (Some (conn_error ''broken pipe''))) 1) \<and>
   \<not> closed (conn (snd (Close (client_of (dialled [] (Some (conn_error ''broken pipe''))) 1)))) \<and>
   sessionHandle (snd (Close (client_of (dialled [] (Some (conn_error ''broken pipe''))) 1))) = 1"
proof -
  have "Close (client_of (dialled [] (Some (conn_error ''broken pipe''))) 1) =
     (Some (fmt_Errorf_w ''failed to send unregister session request: %w''
              (conn_error ''broken pipe'')),
      client_of (dialled [] (Some (conn_error ''broken pipe''))) 1)"
    by (rule Close_send_fails) simp_all
  then show ?thesis by simp
qed

section \<open>Registering a session\<close>




section \<open>The symbolic path\<close>

text \<open>
  C6. The empty name yields the empty path. For every non-empty tag name \<open>s\<close> the path
  has even length, starts with \<open>0x91\<close>, its second byte is \<open>len(s)\<close> reduced modulo 256
  (the conversion \<open>byte(length)\<close>), the name bytes follow at \<open>path[2:2+len(s)]\<close>, and
  there is one trailing \<open>0x00\<close> pad byte exactly when \<open>len(s)\<close> is odd; the pad byte is
  not counted in the length byte.
\<close>

theorem BuildCIPPath_shape:
  "BuildCIPPath [] = [] \<and>
   (s \<noteq> [] \<longrightarrow>
      even (length (BuildCIPPath s)) \<and>
      BuildCIPPath s ! 0 = 0x91 \<and>
      unat (BuildCIPPath s ! 1) = length s mod 256 \<and>
      slice 2 (2 + length s) (BuildCIPPath s) = bytes_of s \<and>
      length (BuildCIPPath s) = 2 + length s + (if odd (length s) then 1 else 0) \<and>
      (odd (length s) \<longrightarrow> last (BuildCIPPath s) = 0))"
proof (intro conjI impI)
  show "BuildCIPPath [] = []" by (simp add: BuildCIPPath_def)
next
  assume s: "s \<noteq> []"
  note p = BuildCIPPath_closed [OF s]
  show "even (length (BuildCIPPath s))" unfolding p by (simp add: bytes_of_def)
  show "BuildCIPPath s ! 0 = 0x91" unfolding p by simp
  show "unat (BuildCIPPath s ! 1) = length s mod 256" unfolding p by (simp add: unat_of_nat)
  show "slice 2 (2 + length s) (BuildCIPPath s) = bytes_of s" unfolding p by (rule slice_path)
  show "length (BuildCIPPath s) = 2 + length s + (if odd (length s) then 1 else 0)"
    unfolding p by (simp add: bytes_of_def)
  show "last (BuildCIPPath s) = 0" if "odd (length s)" unfolding p using that by simp
qed

text \<open>
  C6 at the 11-byte name of the repository's path test: 14 bytes, length byte 11, one
  pad byte.
\<close>

theorem BuildCIPPath_shape_witness:
  "''LongTagName'' \<noteq> [] \<and> odd (length ''LongTagName'') \<and>
   even (length (BuildCIPPath ''LongTagName'')) \<and>
   BuildCIPPath ''LongTagName'' ! 0 = 0x91 \<and>
   unat (BuildCIPPath ''LongTagName'' ! 1) = 11 \<and>
   slice 2 13 (BuildCIPPath ''LongTagName'') = bytes_of ''LongTagName'' \<and>
   length (BuildCIPPath ''LongTagName'') = 14 \<and>
   last (BuildCIPPath ''LongTagName'') = 0"
  using BuildCIPPath_shape [of "''LongTagName''"] by simp

text \<open>
  C6, as first stated, has \<open>path[1] == len(s)\<close> for every non-empty name. For a name of
  256 bytes the length byte is 0.
\<close>

theorem BuildCIPPath_length_byte_of_256:
  "unat (BuildCIPPath (replicate 256 (CHR ''a'')) ! 1) \<noteq> length (replicate 256 (CHR ''a''))"
proof -
  have "replicate 256 (CHR ''a'') \<noteq> []" by simp
  from BuildCIPPath_closed [OF this] show ?thesis by simp
qed

text \<open>
  C10. For every tag name longer than 255 bytes the length byte of the path is
  \<open>len(name) mod 256\<close> and so differs from the length of the name, while all the name
  bytes are still copied into the path (the function has no error result); for a
  non-empty name of at most 255 bytes the length byte is exact.
\<close>

theorem BuildCIPPath_length_byte:
  "(255 < length s \<longrightarrow>
      BuildCIPPath s ! 1 = of_nat (length s mod 256) \<and>
      unat (BuildCIPPath s ! 1) \<noteq> length s \<and>
      slice 2 (2 + length s) (BuildCIPPath s) = bytes_of s) \<and>
   (t \<noteq> [] \<and> length t \<le> 255 \<longrightarrow> unat (BuildCIPPath t ! 1) = length t)"
proof (intro conjI impI)
  assume l: "255 < length s"
  then have s: "s \<noteq> []" by auto
  note p = BuildCIPPath_closed [OF s]
  have u: "unat (of_nat (length s) :: byte) = length s mod 256" by (simp add: unat_of_nat)
  show "BuildCIPPath s ! 1 = of_nat (length s mod 256)" unfolding p
    by (simp add: word_eq_iff_unsigned [where ?'a = nat] unat_of_nat)
  show "unat (BuildCIPPath s ! 1) \<noteq> length s" unfolding p using l u by simp
  show "slice 2 (2 + length s) (BuildCIPPath s) = bytes_of s" unfolding p by (rule slice_path)
next
  assume "t \<noteq> [] \<and> length t \<le> 255"
  then show "unat (BuildCIPPath t ! 1) = length t"
    by (simp add: BuildCIPPath_closed unat_of_nat)
qed

text \<open>C10 at a name of 300 bytes (length byte 44) and at the 4-byte name \<open>Tag1\<close>.\<close>

theorem BuildCIPPath_length_byte_witness:
  "255 < length (replicate 300 (CHR ''a'')) \<and>
   BuildCIPPath (replicate 300 (CHR ''a'')) ! 1 = 44 \<and>
   slice 2 302 (BuildCIPPath (replicate 300 (CHR ''a''))) = bytes_of (replicate 300 (CHR ''a'')) \<and>
   ''Tag1'' \<noteq> [] \<and> length ''Tag1'' \<le> 255 \<and>
   unat (BuildCIPPath ''Tag1'' ! 1) = 4"
  using BuildCIPPath_length_byte [of "replicate 300 (CHR ''a'')" "''Tag1''"] by simp

section \<open>The response parser\<close>

text \<open>
  C7. \<open>ParseCIPResponse\<close> fails on every buffer shorter than 2 bytes (with "response too
  short"); on every buffer of at least 2 bytes whose first byte lacks the reply bit
  \<open>0x80\<close> it fails with "not a response"; and for every buffer with the reply bit set
  and general-status byte 0 it returns the bytes from offset 2 onward.
\<close>

theorem ParseCIPResponse_checks:
  "(length r < 2 \<longrightarrow> ParseCIPResponse r = Inl (errors_New ''response too short'')) \<and>
   (2 \<le> length r \<and> (r ! 0) AND 0x80 = 0 \<longrightarrow>
      ParseCIPResponse r = Inl (errors_New ''not a response'')) \<and>
   (2 \<le> length r \<and> (r ! 0) AND 0x80 \<noteq> 0 \<and> r ! 1 = 0 \<longrightarrow>
      ParseCIPResponse r = Inr (drop 2 r))"
  by (auto simp add: ParseCIPResponse_def CIPStatusToError_def)

text \<open>
  C7 at the empty buffer, at the request-like buffer \<open>0A 00\<close> and at the replies
  \<open>8A 00 44 41 54 41\<close> and \<open>CC 00\<close> of the repository's parser test.
\<close>

theorem ParseCIPResponse_checks_witness:
  "length ([] :: byte list) < 2 \<and>
   ParseCIPResponse [] = Inl (errors_New ''response too short'') \<and>
   ParseCIPResponse [0x0A, 0x00] = Inl (errors_New ''not a response'') \<and>
   ParseCIPResponse [0x8A, 0x00, 0x44, 0x41, 0x54, 0x41] = Inr [0x44, 0x41, 0x54, 0x41] \<and>
   ParseCIPResponse [0xCC, 0x00] = Inr []"
  using ParseCIPResponse_checks [of "[]"] ParseCIPResponse_checks [of "[0x0A, 0x00]"]
    ParseCIPResponse_checks [of "[0x8A, 0x00, 0x44, 0x41, 0x54, 0x41]"]
    ParseCIPResponse_checks [of "[0xCC, 0x00]"]
  by simp

text \<open>
  C7, as first stated, has "not a response" for every buffer whose first byte lacks
  the reply bit. The one-byte buffer \<open>4C\<close> is reported as too short instead: the
  length is checked first.
\<close>

theorem ParseCIPResponse_one_byte:
  "ParseCIPResponse [0x4C] = Inl (errors_New ''response too short'') \<and>
   ParseCIPResponse [0x4C] \<noteq> Inl (errors_New ''not a response'')"
  by (simp add: ParseCIPResponse_def)

section \<open>Round trip of the scalar codec\<close>

text \<open>
  C8. Decoding what the encoder produced gives the value back, for BOOL, INT, DINT
  and REAL: \<open>DecodeBool\<close> after \<open>EncodeBool\<close>, \<open>DecodeInt16\<close> after \<open>EncodeInt16\<close>,
  \<open>DecodeInt32\<close> after \<open>EncodeInt32\<close> and \<open>DecodeFloat32\<close> after \<open>EncodeFloat32\<close> are the
  identity. A REAL is identified with its bit pattern, so the value given back has
  the same 32 bits, also for a NaN.
\<close>

theorem codec_round_trip:
  "DecodeBool (EncodeBool b) = Inr b \<and>
   DecodeInt16 (EncodeInt16 i) = Inr i \<and>
   DecodeInt32 (EncodeInt32 d) = Inr d \<and>
   DecodeFloat32 (EncodeFloat32 f) = Inr f"
proof (intro conjI)
  show "DecodeBool (EncodeBool b) = Inr b"
    by (simp add: DecodeBool_def EncodeBool_def)
  show "DecodeInt16 (EncodeInt16 i) = Inr i"
    by (simp add: DecodeInt16_def EncodeInt16_def PutUint16_fresh Uint16_Cons le16_inverse)
  show "DecodeInt32 (EncodeInt32 d) = Inr d"
    by (simp add: DecodeInt32_def EncodeInt32_def PutUint32_fresh Uint32_Cons le32_inverse)
  show "DecodeFloat32 (EncodeFloat32 f) = Inr f"
    by (simp add: DecodeFloat32_def EncodeFloat32_def PutUint32_fresh Uint32_Cons le32_inverse)
qed

section \<open>Sending without a session\<close>

text \<open>
  C9. On a client whose session handle is 0, \<open>SendRRData\<close> and \<open>SendUnitData\<close> fail with
  the error "session not registered" and leave the client and its connection as they
  were: nothing is written.
\<close>

theorem Send_unregistered:
  "sessionHandle c = 0 \<Longrightarrow>
     SendRRData c interfaceHandle tmo data = (Inl (errors_New ''session not registered''), c) \<and>
     SendUnitData c interfaceHandle tmo data = (Some (errors_New ''session not registered''), c) \<and>
     writeData (conn (snd (SendRRData c interfaceHandle tmo data))) = writeData (conn c) \<and>
     writeData (conn (snd (SendUnitData c interfaceHandle tmo data))) = writeData (conn c)"
  by (simp add: SendRRData_def SendUnitData_def)

text \<open>C9 at a client just dialled, sending a Read Tag request for \<open>Counter\<close>.\<close>

theorem Send_unregistered_witness:
  "sessionHandle (client_of (dialled [] None) 0) = 0 \<and>
   SendRRData (client_of (dialled [] None) 0) 0 10 (BuildCIPReadRequest ''Counter'' 1)
     = (Inl (errors_New ''session not registered''), client_of (dialled [] None) 0) \<and>
   SendUnitData (client_of (dialled [] None) 0) 0 10 (BuildCIPReadRequest ''Counter'' 1)
     = (Some (errors_New ''session not registered''), client_of (dialled [] None) 0) \<and>
   writeData (conn (snd (SendRRData (client_of (dialled [] None) 0) 0 10
     (BuildCIPReadRequest ''Counter'' 1)))) = []"
  using Send_unregistered [of "client_of (dialled [] None) 0" 0 10
      "BuildCIPReadRequest ''Counter'' 1"]
  by simp

end
